theory Spec2Isabelle
  imports Main
begin

section \<open>The embedded control server of PicoTorrent (websocket\_server.cpp)\<close>

text \<open>
  A shallow embedding of \<^verbatim>\<open>src/client/ws/websocket_server.cpp\<close>. Every member
  function of \<^verbatim>\<open>websocket_server\<close> becomes a function on explicit state: the
  server object, the process-wide configuration singleton, and the file system. Calls
  that can throw return a sum whose left injection is the error.
\<close>

subsection \<open>Errors\<close>

datatype error =
    websocketpp_exception  \<comment> \<open>\<^verbatim>\<open>get_con_from_hdl\<close> on a handle that names no connection\<close>
  | boost_system_error     \<comment> \<open>thrown by \<^verbatim>\<open>use_certificate_chain_file\<close>, \<^verbatim>\<open>use_private_key_file\<close>\<close>
  | std_system_error       \<comment> \<open>\<^verbatim>\<open>std::thread::join\<close> on a thread that is not joinable\<close>
  | std_terminate          \<comment> \<open>assigning to a joinable \<^verbatim>\<open>std::thread\<close>; an exception leaving the thread function\<close>

subsection \<open>Configuration\<close>

text \<open>
  Modelled from the spec: \<^verbatim>\<open>picotorrent::client::configuration\<close> is declared in a header
  that is not part of the sources at hand. The spec describes it as a process-wide settings
  store with get/set semantics over five keys, of which only
  \<^verbatim>\<open>websocket_access_token\<close> is written. The field \<open>persisted\<close> logs every
  persistence write, oldest first, as a pair of key and value.
\<close>

record configuration =
  websocket_access_token :: string
  websocket_certificate_file :: string
  websocket_certificate_password :: string
  websocket_cipher_list :: string
  websocket_listen_port :: nat
  persisted :: "(string \<times> string) list"

definition set_websocket_access_token :: "configuration \<Rightarrow> string \<Rightarrow> configuration" where
  "set_websocket_access_token cfg t =
     cfg\<lparr>websocket_access_token := t,
         persisted := persisted cfg @ [(''websocket_access_token'', t)]\<rparr>"

subsection \<open>Token generation\<close>

definition DEFAULT_TOKEN_SIZE :: nat where
  "DEFAULT_TOKEN_SIZE = 20"

text \<open>
  Modelled from the spec: \<^verbatim>\<open>random_string_generator::generate\<close> is declared in
  \<^verbatim>\<open>security/random_string_generator.hpp\<close>, which is not part of the sources at hand.
  The spec says it produces a random token of the requested fixed length over some
  alphabet. The random source is the stream \<open>rnd\<close> of characters; the token is its
  first \<open>n\<close> elements.
\<close>

definition random_string_generator_generate :: "(nat \<Rightarrow> char) \<Rightarrow> nat \<Rightarrow> string" where
  "random_string_generator_generate rnd n = map rnd [0..<n]"

subsection \<open>The server object\<close>

type_synonym connection_hdl = nat

text \<open>
  A connection of the websocketpp endpoint, as far as this file reads it: the headers of
  the handshake request. \<^verbatim>\<open>get_request_header\<close> yields the empty string for a
  header that the request does not carry.
\<close>

record connection =
  request_headers :: "string \<rightharpoonup> string"

definition get_request_header :: "connection \<Rightarrow> string \<Rightarrow> string" where
  "get_request_header con key =
     (case request_headers con key of None \<Rightarrow> [] | Some v \<Rightarrow> v)"

record websocketpp_server =
  con_table :: "connection_hdl \<rightharpoonup> connection"
  listen_port :: "nat option"
  accepting :: bool
  io_service_stopped :: bool

text \<open>
  Modelled from the spec: the class declaration in \<^verbatim>\<open>ws/websocket_server.hpp\<close> is
  not part of the sources at hand, so the types of the members come from their use in
  the source and from the spec: the endpoint \<^verbatim>\<open>srv_\<close>, the token
  \<^verbatim>\<open>configured_token_\<close>, the registry \<^verbatim>\<open>connections_\<close> and the thread
  \<^verbatim>\<open>bg_\<close> (here: whether it is joinable). The spec describes the registry as a set
  of handles; the source calls \<^verbatim>\<open>insert\<close> and \<^verbatim>\<open>erase\<close> with the handle
  alone. It is an ordered set, kept as the list of its elements in ascending order, which
  is what an in-order walk of the container yields.
\<close>

record websocket_server =
  srv :: websocketpp_server
  configured_token :: string
  connections :: "connection_hdl list"
  bg :: bool

text \<open>Insertion into and removal from the ordered set, on its ascending element list.\<close>

fun set_insert :: "connection_hdl \<Rightarrow> connection_hdl list \<Rightarrow> connection_hdl list" where
  "set_insert h [] = [h]"
| "set_insert h (x # xs) =
     (if x < h then x # set_insert h xs
      else if h < x then h # x # xs
      else x # xs)"

fun set_erase :: "connection_hdl \<Rightarrow> connection_hdl list \<Rightarrow> connection_hdl list" where
  "set_erase h [] = []"
| "set_erase h (x # xs) =
     (if x < h then x # set_erase h xs
      else if h < x then x # xs
      else xs)"

text \<open>
  The constructor (lines 23 to 42). It reads the configured token and, if that is empty,
  generates one of \<^const>\<open>DEFAULT_TOKEN_SIZE\<close> characters and stores it in the
  configuration. It returns the new object and the configuration.
\<close>

definition websocket_server_new ::
  "(nat \<Rightarrow> char) \<Rightarrow> configuration \<Rightarrow> websocket_server \<times> configuration" where
  "websocket_server_new rnd cfg =
     (let s = \<lparr>srv = \<lparr>con_table = Map.empty, listen_port = None,
                       accepting = False, io_service_stopped = False\<rparr>,
               configured_token = websocket_access_token cfg,
               connections = [],
               bg = False\<rparr>
      in if configured_token s = []
         then (let tok = random_string_generator_generate rnd DEFAULT_TOKEN_SIZE
               in (s\<lparr>configured_token := tok\<rparr>, set_websocket_access_token cfg tok))
         else (s, cfg))"

text \<open>
  \<^verbatim>\<open>stop\<close> stops the I/O service and joins the thread. Of the thread only the
  state of the thread object is kept: \<open>bg\<close> holds when it is joinable. That
  \<^verbatim>\<open>join\<close> blocks until the other thread has ended has no counterpart in these
  sequential functions. \<^verbatim>\<open>start\<close> follows further down, after the handlers that
  the thread it launches runs.
\<close>

definition stop :: "websocket_server \<Rightarrow> error + websocket_server" where
  "stop s =
     (let s' = s\<lparr>srv := (srv s)\<lparr>io_service_stopped := True\<rparr>\<rparr>
      in if bg s' then Inr (s'\<lparr>bg := False\<rparr>) else Inl std_system_error)"

definition get_certificate_password :: "configuration \<Rightarrow> string" where
  "get_certificate_password cfg = websocket_certificate_password cfg"

definition on_close :: "connection_hdl \<Rightarrow> websocket_server \<Rightarrow> websocket_server" where
  "on_close hdl s = s\<lparr>connections := set_erase hdl (connections s)\<rparr>"

definition on_message :: "connection_hdl \<Rightarrow> websocket_server \<Rightarrow> websocket_server" where
  "on_message hdl s = s"

definition on_open :: "connection_hdl \<Rightarrow> websocket_server \<Rightarrow> websocket_server" where
  "on_open hdl s = s\<lparr>connections := set_insert hdl (connections s)\<rparr>"

definition get_con_from_hdl :: "websocketpp_server \<Rightarrow> connection_hdl \<Rightarrow> error + connection" where
  "get_con_from_hdl ep hdl =
     (case con_table ep hdl of None \<Rightarrow> Inl websocketpp_exception | Some con \<Rightarrow> Inr con)"

definition on_validate :: "websocket_server \<Rightarrow> connection_hdl \<Rightarrow> error + bool" where
  "on_validate s hdl =
     (case get_con_from_hdl (srv s) hdl of
        Inl e \<Rightarrow> Inl e
      | Inr con \<Rightarrow>
          (let token = get_request_header con ''X-PicoTorrent-Token''
           in if token = [] then Inr False
              else Inr (configured_token s = token)))"

text \<open>
  The events that the endpoint hands to the registry's handlers, and the body of
  \<^verbatim>\<open>run\<close>: listen on the configured port, accept, and serve the events in the
  order in which the single network thread receives them. This is \<^verbatim>\<open>run\<close> as
  far as the server object goes and when neither \<^verbatim>\<open>listen\<close> nor
  \<^verbatim>\<open>start_accept\<close> throws; what they throw is part of \<open>start\<close> below.
\<close>

datatype event = Open connection_hdl | Close connection_hdl | Message connection_hdl

fun dispatch :: "event \<Rightarrow> websocket_server \<Rightarrow> websocket_server" where
  "dispatch (Open h) s = on_open h s"
| "dispatch (Close h) s = on_close h s"
| "dispatch (Message h) s = on_message h s"

fun serve :: "event list \<Rightarrow> websocket_server \<Rightarrow> websocket_server" where
  "serve [] s = s"
| "serve (e # es) s = serve es (dispatch e s)"

definition run :: "configuration \<Rightarrow> event list \<Rightarrow> websocket_server \<Rightarrow> websocket_server" where
  "run cfg es s =
     serve es (s\<lparr>srv := (srv s)\<lparr>listen_port := Some (websocket_listen_port cfg),
                                 accepting := True\<rparr>\<rparr>)"

subsection \<open>The file system and the TLS context\<close>

text \<open>
  The file system maps a path to the bytes stored there. \<open>writable\<close> says for which
  paths \<^verbatim>\<open>std::ofstream\<close> can open a file for writing. The constructor of
  \<^verbatim>\<open>std::ofstream\<close> does not throw when it cannot open the file: the stream is left
  in a failed state and \<^verbatim>\<open>write\<close> on it stores nothing. The source never tests the
  stream.
\<close>

record filesystem =
  files :: "string \<rightharpoonup> string"
  writable :: "string \<Rightarrow> bool"

text \<open>
  Modelled from the spec: \<^verbatim>\<open>pal::file_exists\<close> is declared in \<^verbatim>\<open>core/pal.hpp\<close>,
  which is not part of the sources at hand. The spec calls it an existence check of the
  file at the given path.
\<close>

definition pal_file_exists :: "filesystem \<Rightarrow> string \<Rightarrow> bool" where
  "pal_file_exists fs p = (files fs p \<noteq> None)"

definition ofstream_write :: "filesystem \<Rightarrow> string \<Rightarrow> string \<Rightarrow> filesystem" where
  "ofstream_write fs p v =
     (if writable fs p then fs\<lparr>files := (files fs)(p \<mapsto> v)\<rparr> else fs)"

text \<open>
  Modelled from the spec: \<^verbatim>\<open>certificate_manager::generate\<close> is declared in
  \<^verbatim>\<open>security/certificate_manager.hpp\<close>, which is not part of the sources at hand. The
  spec says it synthesizes a new self-signed certificate and key pair, and that the file
  holds the certificate chain followed by the private key, PEM-encoded. The freshly
  drawn pair is the argument, each part as the text between the PEM delimiters.
\<close>

record keypair =
  certificate_body :: string
  private_key_body :: string

definition pem :: "string \<Rightarrow> string \<Rightarrow> string" where
  "pem label body =
     ''-----BEGIN '' @ label @ ''-----'' @ [CHR 0x0A] @ body @
     ''-----END '' @ label @ ''-----'' @ [CHR 0x0A]"

definition certificate_manager_generate :: "keypair \<Rightarrow> string" where
  "certificate_manager_generate kp =
     pem ''CERTIFICATE'' (certificate_body kp) @ pem ''PRIVATE KEY'' (private_key_body kp)"

text \<open>
  What the calls depend on besides configuration and file system: whether OpenSSL can
  read a certificate chain, and a private key under a given password, from given bytes;
  whether it accepts given Diffie-Hellman parameters and a given cipher string (the two
  calls return 1 then, and 0 otherwise); the process-wide Diffie-Hellman parameters of
  \<^verbatim>\<open>dh_params::get\<close>; the key pair that a certificate generation would draw; and
  the ports that the endpoint can bind.
\<close>

record environment =
  reads_certificate_chain :: "string \<Rightarrow> bool"
  reads_private_key :: "string \<Rightarrow> string \<Rightarrow> bool"
  accepts_tmp_dh :: "string \<Rightarrow> bool"
  accepts_cipher_list :: "string \<Rightarrow> bool"
  dh_params_get :: string
  fresh_keypair :: keypair
  port_available :: "nat \<Rightarrow> bool"

datatype ssl_method = sslv23

datatype ssl_option = default_workarounds | no_sslv2 | no_sslv3 | no_tlsv1 | single_dh_use

record ssl_context =
  ssl_method :: ssl_method
  ssl_options :: "ssl_option set"
  password_callback :: "(configuration \<Rightarrow> string) option"
  certificate_chain :: "string option"
  private_key :: "string option"
  tmp_dh :: "string option"
  cipher_list :: "string option"

definition ssl_context_new :: "ssl_method \<Rightarrow> ssl_context" where
  "ssl_context_new m =
     \<lparr>ssl_method = m, ssl_options = {}, password_callback = None,
      certificate_chain = None, private_key = None, tmp_dh = None, cipher_list = None\<rparr>"

definition set_options :: "ssl_context \<Rightarrow> ssl_option set \<Rightarrow> ssl_context" where
  "set_options ctx os = ctx\<lparr>ssl_options := ssl_options ctx \<union> os\<rparr>"

definition set_password_callback :: "ssl_context \<Rightarrow> (configuration \<Rightarrow> string) \<Rightarrow> ssl_context" where
  "set_password_callback ctx cb = ctx\<lparr>password_callback := Some cb\<rparr>"

definition use_certificate_chain_file ::
  "environment \<Rightarrow> filesystem \<Rightarrow> ssl_context \<Rightarrow> string \<Rightarrow> error + ssl_context" where
  "use_certificate_chain_file env fs ctx p =
     (case files fs p of
        None \<Rightarrow> Inl boost_system_error
      | Some bs \<Rightarrow>
          if reads_certificate_chain env bs then Inr (ctx\<lparr>certificate_chain := Some bs\<rparr>)
          else Inl boost_system_error)"

definition use_private_key_file ::
  "environment \<Rightarrow> configuration \<Rightarrow> filesystem \<Rightarrow> ssl_context \<Rightarrow> string \<Rightarrow> error + ssl_context" where
  "use_private_key_file env cfg fs ctx p =
     (case files fs p of
        None \<Rightarrow> Inl boost_system_error
      | Some bs \<Rightarrow>
          (let pw = (case password_callback ctx of None \<Rightarrow> [] | Some cb \<Rightarrow> cb cfg)
           in if reads_private_key env pw bs then Inr (ctx\<lparr>private_key := Some bs\<rparr>)
              else Inl boost_system_error))"

text \<open>
  \<^verbatim>\<open>SSL_CTX_set_tmp_dh\<close> and \<^verbatim>\<open>SSL_CTX_set_cipher_list\<close> do not throw. Each
  installs its argument and returns 1 if OpenSSL accepts it; otherwise it returns 0 and
  installs nothing from the argument. The source discards both results, so only the
  context is returned here. The fields \<open>tmp_dh\<close> and \<open>cipher_list\<close> hold what has
  been installed from an argument; \<open>None\<close> stands for whatever OpenSSL uses when no
  argument has been installed.
\<close>

definition SSL_CTX_set_tmp_dh :: "environment \<Rightarrow> ssl_context \<Rightarrow> string \<Rightarrow> ssl_context" where
  "SSL_CTX_set_tmp_dh env ctx dh =
     (if accepts_tmp_dh env dh then ctx\<lparr>tmp_dh := Some dh\<rparr> else ctx)"

definition SSL_CTX_set_cipher_list :: "environment \<Rightarrow> ssl_context \<Rightarrow> string \<Rightarrow> ssl_context" where
  "SSL_CTX_set_cipher_list env ctx cl =
     (if accepts_cipher_list env cl then ctx\<lparr>cipher_list := Some cl\<rparr> else ctx)"

text \<open>
  \<^verbatim>\<open>on_tls_init\<close> (lines 91 to 121). The result is the context, or the error thrown
  on the way, together with the file system the call leaves behind.
\<close>

definition on_tls_init ::
  "environment \<Rightarrow> configuration \<Rightarrow> filesystem \<Rightarrow> connection_hdl
     \<Rightarrow> (error + ssl_context) \<times> filesystem" where
  "on_tls_init env cfg fs hdl =
     (let ctx = set_options (ssl_context_new sslv23)
                  {default_workarounds, no_sslv2, no_sslv3, no_tlsv1, single_dh_use};
          certificate_file = websocket_certificate_file cfg;
          fs' = (if \<not> pal_file_exists fs certificate_file
                 then ofstream_write fs certificate_file
                        (certificate_manager_generate (fresh_keypair env))
                 else fs);
          ctx = set_password_callback ctx get_certificate_password
      in case use_certificate_chain_file env fs' ctx certificate_file of
           Inl e \<Rightarrow> (Inl e, fs')
         | Inr ctx \<Rightarrow>
             (case use_private_key_file env cfg fs' ctx certificate_file of
                Inl e \<Rightarrow> (Inl e, fs')
              | Inr ctx \<Rightarrow>
                  (let dh = dh_params_get env;
                       ctx = SSL_CTX_set_tmp_dh env ctx dh;
                       ctx = SSL_CTX_set_cipher_list env ctx (websocket_cipher_list cfg)
                   in (Inr ctx, fs'))))"

subsection \<open>Starting the server\<close>

text \<open>
  \<^verbatim>\<open>start_accept\<close> of the endpoint creates the connection object for the next
  client, and creating a connection object of a TLS endpoint calls the handler installed
  by \<^verbatim>\<open>set_tls_init_handler\<close> (line 30) to obtain its context. What the handler
  throws passes through \<^verbatim>\<open>start_accept\<close>. The object created first has handle 0.
\<close>

definition start_accept ::
  "environment \<Rightarrow> configuration \<Rightarrow> filesystem \<Rightarrow> (error + ssl_context) \<times> filesystem" where
  "start_accept env cfg fs = on_tls_init env cfg fs 0"

text \<open>
  \<^verbatim>\<open>start\<close> (lines 48 to 51) assigns to \<^verbatim>\<open>bg_\<close> a thread that executes
  \<^verbatim>\<open>run\<close> (lines 123 to 130), and returns. The result below is what has become of
  the process once that thread has served the events \<open>es\<close>. Assigning to a thread
  that is still joinable terminates the process. In \<^verbatim>\<open>run\<close>, \<^verbatim>\<open>listen\<close>
  throws if the port cannot be bound and \<^verbatim>\<open>start_accept\<close> throws what the TLS
  handler throws; \<^verbatim>\<open>run\<close> catches nothing, so either exception leaves the thread
  function, which terminates the process. Otherwise the loop serves the events.
\<close>

definition start ::
  "environment \<Rightarrow> configuration \<Rightarrow> filesystem \<Rightarrow> event list \<Rightarrow> websocket_server
     \<Rightarrow> (error + websocket_server) \<times> filesystem" where
  "start env cfg fs es s =
     (if bg s then (Inl std_terminate, fs)
      else if \<not> port_available env (websocket_listen_port cfg) then (Inl std_terminate, fs)
      else case start_accept env cfg fs of
             (Inl e, fs') \<Rightarrow> (Inl std_terminate, fs')
           | (Inr ctx, fs') \<Rightarrow> (Inr (run cfg es (s\<lparr>bg := True\<rparr>)), fs'))"

subsection \<open>Concrete states\<close>

definition fresh_configuration :: configuration where
  "fresh_configuration =
     \<lparr>websocket_access_token = [], websocket_certificate_file = ''ws.pem'',
      websocket_certificate_password = ''pw'', websocket_cipher_list = ''HIGH:!aNULL'',
      websocket_listen_port = 7676, persisted = []\<rparr>"

definition provisioned_configuration :: configuration where
  "provisioned_configuration = fresh_configuration\<lparr>websocket_access_token := ''secret''\<rparr>"



definition constant_source :: "nat \<Rightarrow> char" where
  "constant_source i = CHR ''a''"

definition alternating_source :: "nat \<Rightarrow> char" where
  "alternating_source i = (if even i then CHR ''x'' else CHR ''y'')"

definition handshake_server :: websocket_server where
  "handshake_server =
     \<lparr>srv = \<lparr>con_table = [7 \<mapsto> \<lparr>request_headers = [''X-PicoTorrent-Token'' \<mapsto> ''secret'']\<rparr>],
             listen_port = Some 7676, accepting = True, io_service_stopped = False\<rparr>,
      configured_token = ''secret'', connections = [], bg = True\<rparr>"

definition example_keypair :: keypair where
  "example_keypair = \<lparr>certificate_body = ''MIIB'', private_key_body = ''MIIE''\<rparr>"

text \<open>
  An environment whose OpenSSL reads exactly the material that a generation from
  \<^const>\<open>example_keypair\<close> writes, the key only under the password \<open>pw\<close>, and
  accepts the Diffie-Hellman parameters \<open>dh2048\<close> and the cipher string
  \<open>HIGH:!aNULL\<close> only; port 7676 can be bound.
\<close>

definition example_environment :: environment where
  "example_environment =
     \<lparr>reads_certificate_chain = (\<lambda>bs. bs = certificate_manager_generate example_keypair),
      reads_private_key = (\<lambda>pw bs. pw = ''pw'' \<and> bs = certificate_manager_generate example_keypair),
      accepts_tmp_dh = (\<lambda>dh. dh = ''dh2048''),
      accepts_cipher_list = (\<lambda>cl. cl = ''HIGH:!aNULL''),
      dh_params_get = ''dh2048'',
      fresh_keypair = example_keypair,
      port_available = (\<lambda>p. p = 7676)\<rparr>"


definition provisioned_disk :: filesystem where
  "provisioned_disk =
     \<lparr>files = [''ws.pem'' \<mapsto> certificate_manager_generate example_keypair],
      writable = (\<lambda>p. p \<noteq> [])\<rparr>"

definition corrupt_disk :: filesystem where
  "corrupt_disk = \<lparr>files = [''ws.pem'' \<mapsto> ''garbage''], writable = (\<lambda>p. p \<noteq> [])\<rparr>"

section \<open>Properties\<close>

subsection \<open>Auxiliary facts\<close>

lemma set_set_insert: "set (set_insert h xs) = insert h (set xs)"
  by (induction xs) auto

lemma sorted_set_insert: "sorted_wrt (<) xs \<Longrightarrow> sorted_wrt (<) (set_insert h xs)"
  by (induction xs) (auto simp: set_set_insert)

lemma set_set_erase_subset: "set (set_erase h xs) \<subseteq> set xs"
  by (induction xs) auto

lemma sorted_set_erase: "sorted_wrt (<) xs \<Longrightarrow> sorted_wrt (<) (set_erase h xs)"
proof (induction xs)
  case Nil
  show ?case by simp
next
  case (Cons x xs)
  from Cons.prems have tail: "sorted_wrt (<) xs" and above: "\<forall>y\<in>set xs. x < y"
    by simp_all
  from above set_set_erase_subset [of h xs] have "\<forall>y\<in>set (set_erase h xs). x < y"
    by blast
  with Cons.IH [OF tail] tail Cons.prems show ?case
    by simp
qed

lemma set_erase_removes: "sorted_wrt (<) xs \<Longrightarrow> h \<notin> set (set_erase h xs)"
  by (induction xs) auto

lemma set_erase_absent: "h \<notin> set xs \<Longrightarrow> set_erase h xs = xs"
  by (induction xs) auto

lemma dispatch_sorted:
  "sorted_wrt (<) (connections s) \<Longrightarrow> sorted_wrt (<) (connections (dispatch e s))"
  by (cases e)
    (simp_all add: on_open_def on_close_def on_message_def sorted_set_insert sorted_set_erase)

lemma serve_sorted:
  "sorted_wrt (<) (connections s) \<Longrightarrow> sorted_wrt (<) (connections (serve es s))"
  by (induction es arbitrary: s) (simp_all add: dispatch_sorted)

lemma new_connections: "connections (fst (websocket_server_new rnd cfg)) = []"
  by (simp add: websocket_server_new_def Let_def)

lemma run_sorted:
  "sorted_wrt (<) (connections s) \<Longrightarrow> sorted_wrt (<) (connections (run cfg es s))"
  by (simp add: run_def serve_sorted)

text \<open>Every registry that the handlers build from a newly constructed server is strictly ascending.\<close>

lemma reachable_sorted:
  "sorted_wrt (<) (connections (run cfg es (fst (websocket_server_new rnd cfg0))))"
  by (rule run_sorted) (simp add: new_connections)

lemma generate_length: "length (random_string_generator_generate rnd n) = n"
  by (simp add: random_string_generator_generate_def)

lemma generate_default_nonempty:
  "random_string_generator_generate rnd DEFAULT_TOKEN_SIZE \<noteq> []"
  using generate_length [of rnd DEFAULT_TOKEN_SIZE] by (auto simp: DEFAULT_TOKEN_SIZE_def)

lemma new_configuration:
  "snd (websocket_server_new rnd cfg) =
     (if websocket_access_token cfg = []
      then set_websocket_access_token cfg (random_string_generator_generate rnd DEFAULT_TOKEN_SIZE)
      else cfg)"
  by (simp add: websocket_server_new_def Let_def)

lemma new_configured_token:
  "configured_token (fst (websocket_server_new rnd cfg)) =
     (if websocket_access_token cfg = []
      then random_string_generator_generate rnd DEFAULT_TOKEN_SIZE
      else websocket_access_token cfg)"
  by (simp add: websocket_server_new_def Let_def)

lemma token_after_set: "websocket_access_token (set_websocket_access_token cfg t) = t"
  by (simp add: set_websocket_access_token_def)

lemma persisted_after_set:
  "persisted (set_websocket_access_token cfg t) = persisted cfg @ [(''websocket_access_token'', t)]"
  by (simp add: set_websocket_access_token_def)


text \<open>The file system that \<^const>\<open>on_tls_init\<close> leaves behind, whatever its result.\<close>

lemma tls_init_filesystem:
  "snd (on_tls_init env cfg fs hdl) =
     (if pal_file_exists fs (websocket_certificate_file cfg) then fs
      else ofstream_write fs (websocket_certificate_file cfg)
             (certificate_manager_generate (fresh_keypair env)))"
  by (simp add: on_tls_init_def Let_def split: sum.splits)



lemma alternating_token:
  "random_string_generator_generate alternating_source 20 = ''xyxyxyxyxyxyxyxyxyxy''"
  by (simp add: random_string_generator_generate_def alternating_source_def upt_rec)

lemma generate_nth: "i < n \<Longrightarrow> random_string_generator_generate rnd n ! i = rnd i"
  by (simp add: random_string_generator_generate_def)

text \<open>
  A call of \<^const>\<open>on_tls_init\<close> that has returned a context returns the same context
  again on the file system it left, and leaves that file system as it is. So the calls
  that the endpoint makes for later connection objects behave as the first one does, as
  long as nothing else changes the configuration or the file.
\<close>

lemma tls_init_again:
  assumes "on_tls_init env cfg fs hdl = (Inr ctx, fs')"
  shows "on_tls_init env cfg fs' hdl' = (Inr ctx, fs')"
proof -
  from assms have fs': "fs' = snd (on_tls_init env cfg fs hdl)"
    by simp
  have present: "pal_file_exists fs' (websocket_certificate_file cfg)"
    using assms unfolding fs' tls_init_filesystem
    by (auto simp: on_tls_init_def Let_def use_certificate_chain_file_def pal_file_exists_def
        ofstream_write_def split: if_splits option.splits sum.splits)
  from assms present show ?thesis
    unfolding fs' tls_init_filesystem
    by (auto simp: on_tls_init_def Let_def split: if_splits sum.splits)
qed

text \<open>With a certificate file that OpenSSL reads, the started server serves its events.\<close>

lemma start_with_readable_certificate:
  "start example_environment provisioned_configuration provisioned_disk es
     (fst (websocket_server_new constant_source provisioned_configuration)) =
   (Inr (run provisioned_configuration es
          ((fst (websocket_server_new constant_source provisioned_configuration))\<lparr>bg := True\<rparr>)),
    provisioned_disk)"
  by (simp add: start_def start_accept_def on_tls_init_def Let_def
      use_certificate_chain_file_def use_private_key_file_def set_password_callback_def
      get_certificate_password_def pal_file_exists_def websocket_server_new_def
      example_environment_def provisioned_configuration_def fresh_configuration_def
      provisioned_disk_def)

subsection \<open>Connection admission\<close>

text \<open>
  Claim C1. For a handshake whose handle names the connection \<open>con\<close>,
  \<^const>\<open>on_validate\<close> accepts if and only if the request carries the header
  \<^verbatim>\<open>X-PicoTorrent-Token\<close> with a value that is not empty and equals the server's
  token: an absent header is rejected, an empty value is rejected, a value different from
  the token is rejected, and a value equal to the token is accepted.
\<close>

theorem on_validate_accepts_exactly_the_token:
  "get_con_from_hdl (srv s) hdl = Inr con \<Longrightarrow>
   on_validate s hdl =
     Inr (case request_headers con ''X-PicoTorrent-Token'' of
            None \<Rightarrow> False
          | Some v \<Rightarrow> v \<noteq> [] \<and> v = configured_token s)"
  by (auto simp: on_validate_def get_request_header_def Let_def split: option.splits)

theorem on_validate_accepts_exactly_the_token_witness:
  "get_con_from_hdl (srv handshake_server) 7 =
     Inr \<lparr>request_headers = [''X-PicoTorrent-Token'' \<mapsto> ''secret'']\<rparr> \<and>
   on_validate handshake_server 7 = Inr True"
proof -
  have h: "get_con_from_hdl (srv handshake_server) 7 =
     Inr \<lparr>request_headers = [''X-PicoTorrent-Token'' \<mapsto> ''secret'']\<rparr>"
    by (simp add: get_con_from_hdl_def handshake_server_def)
  from on_validate_accepts_exactly_the_token [OF h] h show ?thesis
    by (simp add: handshake_server_def)
qed

subsection \<open>Token provisioning\<close>

text \<open>
  Claim C2. If the configuration holds a token that is not empty, the constructed server
  uses that token and the configuration is returned as it was, so nothing is persisted.
  Otherwise the server's token is what the random string generator makes of the random
  source for length 20: it has exactly 20 characters, its character at each position is
  the one the random source gives there, the configuration holds that same token
  afterwards, and exactly one write of it has been added to the persistence log.
\<close>

theorem constructor_provisions_token:
  "(websocket_access_token cfg \<noteq> [] \<longrightarrow>
      configured_token (fst (websocket_server_new rnd cfg)) = websocket_access_token cfg \<and>
      snd (websocket_server_new rnd cfg) = cfg) \<and>
   (websocket_access_token cfg = [] \<longrightarrow>
      configured_token (fst (websocket_server_new rnd cfg)) =
        random_string_generator_generate rnd 20 \<and>
      length (configured_token (fst (websocket_server_new rnd cfg))) = 20 \<and>
      (\<forall>i<20. configured_token (fst (websocket_server_new rnd cfg)) ! i = rnd i) \<and>
      websocket_access_token (snd (websocket_server_new rnd cfg)) =
        configured_token (fst (websocket_server_new rnd cfg)) \<and>
      persisted (snd (websocket_server_new rnd cfg)) =
        persisted cfg @
          [(''websocket_access_token'', configured_token (fst (websocket_server_new rnd cfg)))])"
  by (simp add: new_configuration new_configured_token token_after_set persisted_after_set
      generate_length generate_nth DEFAULT_TOKEN_SIZE_def)

theorem constructor_provisions_token_witness:
  "websocket_access_token provisioned_configuration \<noteq> [] \<and>
   configured_token (fst (websocket_server_new alternating_source provisioned_configuration)) =
     ''secret'' \<and>
   snd (websocket_server_new alternating_source provisioned_configuration) =
     provisioned_configuration \<and>
   websocket_access_token fresh_configuration = [] \<and>
   configured_token (fst (websocket_server_new alternating_source fresh_configuration)) =
     ''xyxyxyxyxyxyxyxyxyxy'' \<and>
   length (configured_token (fst (websocket_server_new alternating_source fresh_configuration))) =
     20 \<and>
   configured_token (fst (websocket_server_new alternating_source fresh_configuration)) ! 3 =
     alternating_source 3 \<and>
   websocket_access_token (snd (websocket_server_new alternating_source fresh_configuration)) =
     ''xyxyxyxyxyxyxyxyxyxy'' \<and>
   persisted (snd (websocket_server_new alternating_source fresh_configuration)) =
     [(''websocket_access_token'', ''xyxyxyxyxyxyxyxyxyxy'')]"
  using constructor_provisions_token [of provisioned_configuration alternating_source]
    constructor_provisions_token [of fresh_configuration alternating_source]
  by (simp add: provisioned_configuration_def fresh_configuration_def alternating_token
      alternating_source_def)

text \<open>
  Claim C8, as amended. Constructing the server twice in a row, the second time on the
  configuration that the first construction left behind, gives the same token both times,
  and the second construction leaves the configuration, and with it the persistence log,
  as it found it. Over both constructions the log grows by exactly one write if the
  configuration held no token at the outset, and by none if it held one.
\<close>

theorem provisioning_twice:
  "configured_token (fst (websocket_server_new rnd2 (snd (websocket_server_new rnd1 cfg)))) =
     configured_token (fst (websocket_server_new rnd1 cfg)) \<and>
   snd (websocket_server_new rnd2 (snd (websocket_server_new rnd1 cfg))) =
     snd (websocket_server_new rnd1 cfg) \<and>
   length (persisted (snd (websocket_server_new rnd2 (snd (websocket_server_new rnd1 cfg))))) =
     length (persisted cfg) + (if websocket_access_token cfg = [] then 1 else 0)"
  by (simp add: new_configuration new_configured_token token_after_set persisted_after_set
      generate_default_nonempty)

text \<open>
  Claim C8 as it is stated asks for exactly one write whatever the configuration. From a
  configuration that already holds the token \<open>secret\<close>, the two constructions write
  nothing.
\<close>

theorem provisioning_twice_one_write_counterexample:
  "\<not> (length (persisted (snd (websocket_server_new constant_source
          (snd (websocket_server_new constant_source provisioned_configuration))))) =
       length (persisted provisioned_configuration) + 1)"
  by (simp add: new_configuration provisioned_configuration_def fresh_configuration_def)

subsection \<open>Certificate provisioning and the TLS context\<close>

text \<open>
  Claim C3. When a file exists at the configured certificate path, \<^const>\<open>on_tls_init\<close>
  leaves the file system exactly as it found it, whether it returns a context or fails:
  no file is created and no byte of the existing file changes.
\<close>

theorem existing_certificate_untouched:
  "pal_file_exists fs (websocket_certificate_file cfg) \<Longrightarrow>
   snd (on_tls_init env cfg fs hdl) = fs"
  by (simp add: tls_init_filesystem)

theorem existing_certificate_untouched_witness:
  "pal_file_exists provisioned_disk (websocket_certificate_file provisioned_configuration) \<and>
   snd (on_tls_init example_environment provisioned_configuration provisioned_disk 7) =
     provisioned_disk"
proof -
  have h: "pal_file_exists provisioned_disk (websocket_certificate_file provisioned_configuration)"
    by (simp add: pal_file_exists_def provisioned_disk_def provisioned_configuration_def
        fresh_configuration_def)
  from existing_certificate_untouched [OF h] h show ?thesis by simp
qed







text \<open>
  Claim C7. A file at the configured certificate path from which OpenSSL cannot read the
  certificate chain, or cannot read the private key under the configured password, is not
  regenerated: \<^const>\<open>on_tls_init\<close> fails with the loader's error and leaves the file
  system as it found it. And the failure is fatal when the server starts: whatever
  events are due, the thread that \<^const>\<open>start\<close> launches ends in the termination of
  the process before it serves any of them, with the file system as it was.
\<close>

theorem corrupt_certificate_fatal_at_startup:
  "files fs (websocket_certificate_file cfg) = Some bs \<Longrightarrow>
   \<not> (reads_certificate_chain env bs \<and>
      reads_private_key env (websocket_certificate_password cfg) bs) \<Longrightarrow>
   on_tls_init env cfg fs hdl = (Inl boost_system_error, fs) \<and>
   start env cfg fs es s = (Inl std_terminate, fs)"
  by (auto simp: start_def start_accept_def on_tls_init_def Let_def
      use_certificate_chain_file_def use_private_key_file_def set_password_callback_def
      get_certificate_password_def pal_file_exists_def)

theorem corrupt_certificate_fatal_at_startup_witness:
  "files corrupt_disk (websocket_certificate_file provisioned_configuration) = Some ''garbage'' \<and>
   \<not> (reads_certificate_chain example_environment ''garbage'' \<and>
      reads_private_key example_environment
        (websocket_certificate_password provisioned_configuration) ''garbage'') \<and>
   on_tls_init example_environment provisioned_configuration corrupt_disk 7 =
     (Inl boost_system_error, corrupt_disk) \<and>
   start example_environment provisioned_configuration corrupt_disk [Open 7, Message 7, Close 7]
       (fst (websocket_server_new constant_source provisioned_configuration)) =
     (Inl std_terminate, corrupt_disk)"
proof -
  have h1: "files corrupt_disk (websocket_certificate_file provisioned_configuration) = Some ''garbage''"
    by (simp add: corrupt_disk_def provisioned_configuration_def fresh_configuration_def)
  have h2: "\<not> (reads_certificate_chain example_environment ''garbage'' \<and>
      reads_private_key example_environment
        (websocket_certificate_password provisioned_configuration) ''garbage'')"
    by (simp add: example_environment_def certificate_manager_generate_def pem_def)
  from corrupt_certificate_fatal_at_startup [OF h1 h2] h1 h2
  show ?thesis by simp
qed

subsection \<open>The session registry\<close>

text \<open>
  Claim C6. After any sequence of open, close and message events served by a newly
  constructed server, no handle occurs in the registry more than once; and closing a
  handle \<open>h\<close> in any such state leaves a registry of which \<open>h\<close> is not a member.
\<close>

theorem registry_members_unique_and_gone_after_close:
  "distinct (connections (run cfg es (fst (websocket_server_new rnd cfg0)))) \<and>
   h \<notin> set (connections (on_close h (run cfg es (fst (websocket_server_new rnd cfg0)))))"
proof
  show "distinct (connections (run cfg es (fst (websocket_server_new rnd cfg0))))"
    using reachable_sorted [of cfg es rnd cfg0] by (simp add: strict_sorted_iff)
  show "h \<notin> set (connections (on_close h (run cfg es (fst (websocket_server_new rnd cfg0)))))"
    using reachable_sorted [of cfg es rnd cfg0] by (simp add: on_close_def set_erase_removes)
qed

text \<open>
  Claim C10. \<^const>\<open>on_close\<close> has no failing branch. Called with a handle that is not
  in the registry it returns the server unchanged; and in every state that a newly
  constructed server reaches by serving events, closing a handle a second time changes
  nothing.
\<close>

theorem on_close_of_absent_handle:
  "(h \<notin> set (connections s) \<longrightarrow> on_close h s = s) \<and>
   on_close h (on_close h (run cfg es (fst (websocket_server_new rnd cfg0)))) =
     on_close h (run cfg es (fst (websocket_server_new rnd cfg0)))"
proof
  show "h \<notin> set (connections s) \<longrightarrow> on_close h s = s"
    by (simp add: on_close_def set_erase_absent)
  have "h \<notin> set (set_erase h (connections (run cfg es (fst (websocket_server_new rnd cfg0)))))"
    using reachable_sorted [of cfg es rnd cfg0] by (rule set_erase_removes)
  then show "on_close h (on_close h (run cfg es (fst (websocket_server_new rnd cfg0)))) =
     on_close h (run cfg es (fst (websocket_server_new rnd cfg0)))"
    by (simp add: on_close_def set_erase_absent)
qed

theorem on_close_of_absent_handle_witness:
  "5 \<notin> set (connections handshake_server) \<and>
   on_close 5 handshake_server = handshake_server \<and>
   on_close 5 (on_close 5 (run fresh_configuration [Open 5, Open 3, Open 5]
       (fst (websocket_server_new constant_source fresh_configuration)))) =
     on_close 5 (run fresh_configuration [Open 5, Open 3, Open 5]
       (fst (websocket_server_new constant_source fresh_configuration)))"
proof -
  have h: "5 \<notin> set (connections handshake_server)"
    by (simp add: handshake_server_def)
  from on_close_of_absent_handle
    [of 5 handshake_server fresh_configuration "[Open 5, Open 3, Open 5]"
      constant_source fresh_configuration] h
  show ?thesis by simp
qed

end
